theory Spec2Isabelle
  imports Main "HOL-Library.Word" "HOL-Library.AList"
begin

section \<open>The two value systems of convert/conv.go\<close>

text \<open>
  The package converts between Go values held in an \<^verbatim>\<open>interface{}\<close> (type \<open>native\<close>
  below) and values of the embedded Starlark interpreter (\<^verbatim>\<open>starlark.Value\<close>, type
  \<open>starlark_Value\<close> below), and wraps Go functions as Starlark builtins. It dispatches
  through package \<^verbatim>\<open>reflect\<close>, so the model carries what reflection reads: the dynamic
  type of a value, its kind, and the accessors that panic on a value of the wrong kind.

  Conventions of the model:
  \<^item> \<^verbatim>\<open>int\<close> and \<^verbatim>\<open>uint\<close> are 64 bits wide (a 64-bit platform), so the conversions
    \<^verbatim>\<open>int(val.Int())\<close> and \<^verbatim>\<open>uint(val.Uint())\<close> are the identity on 64-bit words;
  \<^item> a \<^verbatim>\<open>starlark.Int\<close> is an integer of any size (the library keeps a big integer);
  \<^item> a float64 is given by its IEEE-754 bits, or as the exact widening of a float32
    (what \<^verbatim>\<open>float64(x)\<close> yields for a float32 \<open>x\<close>); no float arithmetic is modelled;
  \<^item> a Go map and a Starlark dict or set are association lists in iteration order
    (for a Go map: the order in which this run of \<^verbatim>\<open>range\<close> visits the keys); keys are
    compared structurally;
  \<^item> a Go function value is a handle: its declared parameter and result types and an
    identifier; what calling it does is a parameter of the model;
  \<^item> values of defined (named) Go types are not told apart from values of their
    underlying type, and a pointer points to a variable of concrete (non-interface)
    type that is not itself a Starlark value.
\<close>

datatype float64 = F64 "64 word" | F64_of_F32 "32 word"

text \<open>\<^verbatim>\<open>reflect.Kind\<close>.\<close>

datatype kind =
    KInvalid | KBool
  | KInt | KInt8 | KInt16 | KInt32 | KInt64
  | KUint | KUint8 | KUint16 | KUint32 | KUint64 | KUintptr
  | KFloat32 | KFloat64 | KComplex64 | KComplex128
  | KArray | KChan | KFunc | KInterface | KMap | KPtr | KSlice | KString | KStruct
  | KUnsafePointer

text \<open>\<^verbatim>\<open>reflect.Type\<close>: \<open>TInterface\<close> is \<^verbatim>\<open>interface{}\<close>, \<open>TError\<close> is the predeclared
  interface \<^verbatim>\<open>error\<close>, \<open>TNamed n u\<close> is a defined type \<open>n\<close> with underlying type \<open>u\<close>.\<close>

datatype gotype =
    TBool
  | TInt | TInt8 | TInt16 | TInt32 | TInt64
  | TUint | TUint8 | TUint16 | TUint32 | TUint64 | TUintptr
  | TFloat32 | TFloat64 | TComplex64 | TComplex128
  | TString
  | TArray nat gotype
  | TChan gotype
  | TFunc "gotype list" "gotype list"
  | TInterface
  | TError
  | TMap gotype gotype
  | TPtr gotype
  | TSlice gotype
  | TStruct string
  | TUnsafePointer
  | TNamed string gotype

text \<open>
  A Go value in an \<^verbatim>\<open>interface{}\<close>, and a Starlark value. \<open>GNil\<close> is the nil interface
  (for reflection: the zero \<^verbatim>\<open>reflect.Value\<close>); \<open>GValue v\<close> is a Go value whose dynamic
  type implements \<^verbatim>\<open>starlark.Value\<close>. \<open>SStruct i\<close> is this package's \<^verbatim>\<open>*Struct\<close> with its
  field \<^verbatim>\<open>i\<close>; \<open>SBuiltin name gofn\<close> is the \<^verbatim>\<open>*starlark.Builtin\<close> that \<^verbatim>\<open>MakeStarFn\<close>
  returns for the Go function \<open>gofn\<close>.
\<close>

datatype native =
    GNil
  | GBool bool
  | GInt "64 word" | GInt8 "8 word" | GInt16 "16 word" | GInt32 "32 word" | GInt64 "64 word"
  | GUint "64 word" | GUint8 "8 word" | GUint16 "16 word" | GUint32 "32 word"
  | GUint64 "64 word" | GUintptr "64 word"
  | GFloat32 "32 word" | GFloat64 float64
  | GString string
  | GArray gotype "native list"
  | GChan gotype nat
  | GFunc "gotype list" "gotype list" nat
  | GMap gotype gotype "(native \<times> native) list"
  | GPtr native
  | GNilPtr gotype
  | GSlice gotype "native list"
  | GStruct string "(string \<times> native) list"
  | GValue starlark_Value
and starlark_Value =
    SNone
  | SBool bool
  | SInt int
  | SFloat float64
  | SString string
  | SList "starlark_Value list"
  | STuple "starlark_Value list"
  | SDict "(starlark_Value \<times> starlark_Value) list"
  | SSet "starlark_Value list"
  | SStruct native
  | SBuiltin string native

subsection \<open>Failures\<close>

text \<open>
  A panic aborts the call path and is not reported as an \<^verbatim>\<open>error\<close>; an \<open>error\<close> is the
  second result of a function. A function of Go type \<^verbatim>\<open>(T, error)\<close> is modelled with
  result type \<open>fault + T\<close>, a function that can only panic with \<open>panic + T\<close>.
\<close>

datatype panic =
    ReflectValueError string kind
      \<comment> \<open>\<^verbatim>\<open>reflect: call of <method> on <kind> Value\<close>\<close>
  | ZeroValueType
      \<comment> \<open>\<^verbatim>\<open>reflect: call of reflect.Value.Type on zero Value\<close>\<close>
  | NilDereference
      \<comment> \<open>a method called on the nil \<^verbatim>\<open>reflect.Type\<close>\<close>
  | IndexOutOfRange
  | CantConvertInt int
      \<comment> \<open>\<^verbatim>\<open>can't convert starlark.Int %q to int\<close>\<close>
  | NotSliceOrArray kind "gotype option"
      \<comment> \<open>\<^verbatim>\<open>value should be slice or array but was %v, %T\<close>\<close>
  | CantMakeMap "gotype option"
      \<comment> \<open>\<^verbatim>\<open>can't make map of %T\<close>\<close>
  | FnNotFunction
      \<comment> \<open>\<^verbatim>\<open>fn is not a function\<close>\<close>
  | UnhashableKey "gotype option"
      \<comment> \<open>\<^verbatim>\<open>runtime error: hash of unhashable type\<close>, on a map assignment\<close>
  | NativePanic string
      \<comment> \<open>raised by \<^verbatim>\<open>reflect.Value.Convert\<close>, \<^verbatim>\<open>reflect.Value.Call\<close> or the called function\<close>

datatype error =
    UnsupportedType "gotype option"
      \<comment> \<open>\<^verbatim>\<open>type %T is not a supported starlark type\<close>\<close>
  | ArityMismatch nat nat
      \<comment> \<open>\<^verbatim>\<open>expected %d args but got %d\<close>\<close>
  | KwargLen nat
      \<comment> \<open>\<^verbatim>\<open>kwarg tuple should have 2 vals, has %v\<close>\<close>
  | KwargName native
      \<comment> \<open>\<^verbatim>\<open>expected name of kwarg to be string, but was %T (%#v)\<close>\<close>
  | Unhashable
      \<comment> \<open>the error of \<^verbatim>\<open>starlark.Dict.SetKey\<close> on an unhashable key\<close>
  | NativeError native
      \<comment> \<open>the non-nil \<^verbatim>\<open>error\<close> value a wrapped Go function returned\<close>

datatype fault = Panic panic | Error error

section \<open>Package reflect\<close>

fun type_Kind :: "gotype \<Rightarrow> kind" where
  "type_Kind TBool = KBool"
| "type_Kind TInt = KInt"
| "type_Kind TInt8 = KInt8"
| "type_Kind TInt16 = KInt16"
| "type_Kind TInt32 = KInt32"
| "type_Kind TInt64 = KInt64"
| "type_Kind TUint = KUint"
| "type_Kind TUint8 = KUint8"
| "type_Kind TUint16 = KUint16"
| "type_Kind TUint32 = KUint32"
| "type_Kind TUint64 = KUint64"
| "type_Kind TUintptr = KUintptr"
| "type_Kind TFloat32 = KFloat32"
| "type_Kind TFloat64 = KFloat64"
| "type_Kind TComplex64 = KComplex64"
| "type_Kind TComplex128 = KComplex128"
| "type_Kind TString = KString"
| "type_Kind (TArray n t) = KArray"
| "type_Kind (TChan t) = KChan"
| "type_Kind (TFunc ins outs) = KFunc"
| "type_Kind TInterface = KInterface"
| "type_Kind TError = KInterface"
| "type_Kind (TMap k v) = KMap"
| "type_Kind (TPtr t) = KPtr"
| "type_Kind (TSlice t) = KSlice"
| "type_Kind (TStruct n) = KStruct"
| "type_Kind TUnsafePointer = KUnsafePointer"
| "type_Kind (TNamed n u) = type_Kind u"

text \<open>\<^verbatim>\<open>strconv.Itoa\<close> on a length, and \<^verbatim>\<open>reflect.Type.String\<close>.\<close>

fun itoa :: "nat \<Rightarrow> string" where
  "itoa n = (if n < 10 then [char_of (48 + n)] else itoa (n div 10) @ [char_of (48 + n mod 10)])"

declare itoa.simps [simp del]

fun commas :: "string list \<Rightarrow> string" where
  "commas [] = []"
| "commas [s] = s"
| "commas (s # t # ss) = s @ '', '' @ commas (t # ss)"

fun type_String :: "gotype \<Rightarrow> string" where
  "type_String TBool = ''bool''"
| "type_String TInt = ''int''"
| "type_String TInt8 = ''int8''"
| "type_String TInt16 = ''int16''"
| "type_String TInt32 = ''int32''"
| "type_String TInt64 = ''int64''"
| "type_String TUint = ''uint''"
| "type_String TUint8 = ''uint8''"
| "type_String TUint16 = ''uint16''"
| "type_String TUint32 = ''uint32''"
| "type_String TUint64 = ''uint64''"
| "type_String TUintptr = ''uintptr''"
| "type_String TFloat32 = ''float32''"
| "type_String TFloat64 = ''float64''"
| "type_String TComplex64 = ''complex64''"
| "type_String TComplex128 = ''complex128''"
| "type_String TString = ''string''"
| "type_String (TArray n t) = ''['' @ itoa n @ '']'' @ type_String t"
| "type_String (TChan t) = ''chan '' @ type_String t"
| "type_String (TFunc ins outs) =
     ''func('' @ commas (map type_String ins) @ '')'' @
     (case outs of
        [] \<Rightarrow> []
      | [t] \<Rightarrow> '' '' @ type_String t
      | _ \<Rightarrow> '' ('' @ commas (map type_String outs) @ '')'')"
| "type_String TInterface = ''interface {}''"
| "type_String TError = ''error''"
| "type_String (TMap k v) = ''map['' @ type_String k @ '']'' @ type_String v"
| "type_String (TPtr t) = ''*'' @ type_String t"
| "type_String (TSlice t) = ''[]'' @ type_String t"
| "type_String (TStruct n) = n"
| "type_String TUnsafePointer = ''unsafe.Pointer''"
| "type_String (TNamed n u) = n"

text \<open>The Go types behind the Starlark values (package \<^verbatim>\<open>go.starlark.net/starlark\<close>, and
  this package's \<^verbatim>\<open>*Struct\<close>).\<close>

fun Value_Type :: "starlark_Value \<Rightarrow> gotype" where
  "Value_Type SNone = TNamed ''starlark.NoneType'' TUint8"
| "Value_Type (SBool b) = TNamed ''starlark.Bool'' TBool"
| "Value_Type (SInt i) = TStruct ''starlark.Int''"
| "Value_Type (SFloat f) = TNamed ''starlark.Float'' TFloat64"
| "Value_Type (SString s) = TNamed ''starlark.String'' TString"
| "Value_Type (SList xs) = TPtr (TStruct ''starlark.List'')"
| "Value_Type (STuple xs) =
     TNamed ''starlark.Tuple'' (TSlice (TNamed ''starlark.Value'' TInterface))"
| "Value_Type (SDict kvs) = TPtr (TStruct ''starlark.Dict'')"
| "Value_Type (SSet xs) = TPtr (TStruct ''starlark.Set'')"
| "Value_Type (SStruct i) = TPtr (TStruct ''convert.Struct'')"
| "Value_Type (SBuiltin name gofn) = TPtr (TStruct ''starlark.Builtin'')"

text \<open>\<^verbatim>\<open>reflect.TypeOf(v)\<close>: \<open>None\<close> is the nil \<^verbatim>\<open>reflect.Type\<close> of the nil interface.\<close>

fun TypeOf :: "native \<Rightarrow> gotype option" where
  "TypeOf GNil = None"
| "TypeOf (GBool b) = Some TBool"
| "TypeOf (GInt w) = Some TInt"
| "TypeOf (GInt8 w) = Some TInt8"
| "TypeOf (GInt16 w) = Some TInt16"
| "TypeOf (GInt32 w) = Some TInt32"
| "TypeOf (GInt64 w) = Some TInt64"
| "TypeOf (GUint w) = Some TUint"
| "TypeOf (GUint8 w) = Some TUint8"
| "TypeOf (GUint16 w) = Some TUint16"
| "TypeOf (GUint32 w) = Some TUint32"
| "TypeOf (GUint64 w) = Some TUint64"
| "TypeOf (GUintptr w) = Some TUintptr"
| "TypeOf (GFloat32 w) = Some TFloat32"
| "TypeOf (GFloat64 f) = Some TFloat64"
| "TypeOf (GString s) = Some TString"
| "TypeOf (GArray t xs) = Some (TArray (length xs) t)"
| "TypeOf (GChan t c) = Some (TChan t)"
| "TypeOf (GFunc ins outs f) = Some (TFunc ins outs)"
| "TypeOf (GMap k v kvs) = Some (TMap k v)"
| "TypeOf (GPtr p) = map_option TPtr (TypeOf p)"
| "TypeOf (GNilPtr t) = Some (TPtr t)"
| "TypeOf (GSlice t xs) = Some (TSlice t)"
| "TypeOf (GStruct n fs) = Some (TStruct n)"
| "TypeOf (GValue v) = Some (Value_Type v)"

text \<open>\<^verbatim>\<open>reflect.ValueOf(v).Kind()\<close>; the zero Value has kind \<^verbatim>\<open>Invalid\<close>.\<close>

definition Kind :: "native \<Rightarrow> kind" where
  "Kind v = (case TypeOf v of None \<Rightarrow> KInvalid | Some t \<Rightarrow> type_Kind t)"

text \<open>\<^verbatim>\<open>reflect.ValueOf(v).Elem()\<close> of a pointer: the variable it points to, the zero Value
  for a nil pointer. (\<^verbatim>\<open>Elem\<close> panics on other kinds; \<^verbatim>\<open>ToValue\<close> calls it on pointers and
  interfaces only, and \<^verbatim>\<open>reflect.ValueOf\<close> never yields a Value of kind \<^verbatim>\<open>Interface\<close>.)\<close>

fun Elem :: "native \<Rightarrow> native" where
  "Elem (GPtr p) = p"
| "Elem v = GNil"

text \<open>The accessors of \<^verbatim>\<open>reflect.Value\<close>. \<^verbatim>\<open>Bool\<close>, \<^verbatim>\<open>Int\<close>, \<^verbatim>\<open>Uint\<close> and \<^verbatim>\<open>Float\<close> panic on
  a Value of another kind; \<^verbatim>\<open>Int\<close> sign-extends to \<^verbatim>\<open>int64\<close>, \<^verbatim>\<open>Uint\<close> zero-extends to
  \<^verbatim>\<open>uint64\<close>, \<^verbatim>\<open>Float\<close> widens to \<^verbatim>\<open>float64\<close>. \<^verbatim>\<open>String\<close> never panics: on a Value that is not
  a string it returns \<^verbatim>\<open>"<T Value>"\<close> for the Value's type \<^verbatim>\<open>T\<close>.\<close>

fun reflect_Bool :: "native \<Rightarrow> panic + bool" where
  "reflect_Bool (GBool b) = Inr b"
| "reflect_Bool v = Inl (ReflectValueError ''reflect.Value.Bool'' (Kind v))"

fun reflect_Int :: "native \<Rightarrow> panic + 64 word" where
  "reflect_Int (GInt w) = Inr w"
| "reflect_Int (GInt8 w) = Inr (scast w)"
| "reflect_Int (GInt16 w) = Inr (scast w)"
| "reflect_Int (GInt32 w) = Inr (scast w)"
| "reflect_Int (GInt64 w) = Inr w"
| "reflect_Int v = Inl (ReflectValueError ''reflect.Value.Int'' (Kind v))"

fun reflect_Uint :: "native \<Rightarrow> panic + 64 word" where
  "reflect_Uint (GUint w) = Inr w"
| "reflect_Uint (GUint8 w) = Inr (ucast w)"
| "reflect_Uint (GUint16 w) = Inr (ucast w)"
| "reflect_Uint (GUint32 w) = Inr (ucast w)"
| "reflect_Uint (GUint64 w) = Inr w"
| "reflect_Uint (GUintptr w) = Inr w"
| "reflect_Uint v = Inl (ReflectValueError ''reflect.Value.Uint'' (Kind v))"

fun reflect_Float :: "native \<Rightarrow> panic + float64" where
  "reflect_Float (GFloat32 w) = Inr (F64_of_F32 w)"
| "reflect_Float (GFloat64 f) = Inr f"
| "reflect_Float v = Inl (ReflectValueError ''reflect.Value.Float'' (Kind v))"

fun reflect_String :: "native \<Rightarrow> string" where
  "reflect_String (GString s) = s"
| "reflect_String v =
     (case TypeOf v of
        None \<Rightarrow> ''<invalid Value>''
      | Some t \<Rightarrow> ''<'' @ type_String t @ '' Value>'')"

section \<open>Package starlark\<close>

text \<open>The constructors of \<^verbatim>\<open>starlark.Int\<close> from machine integers, and its methods
  \<^verbatim>\<open>Int64\<close> and \<^verbatim>\<open>Uint64\<close>, which return the value and whether it is representable.\<close>

definition MakeInt :: "64 word \<Rightarrow> starlark_Value" where
  "MakeInt x = SInt (sint x)"

definition MakeInt64 :: "64 word \<Rightarrow> starlark_Value" where
  "MakeInt64 x = SInt (sint x)"

definition MakeUint :: "64 word \<Rightarrow> starlark_Value" where
  "MakeUint x = SInt (uint x)"

definition MakeUint64 :: "64 word \<Rightarrow> starlark_Value" where
  "MakeUint64 x = SInt (uint x)"

definition Int64 :: "int \<Rightarrow> 64 word option" where
  "Int64 i = (if - (2 ^ 63) \<le> i \<and> i < 2 ^ 63 then Some (word_of_int i) else None)"

definition Uint64 :: "int \<Rightarrow> 64 word option" where
  "Uint64 i = (if 0 \<le> i \<and> i < 2 ^ 64 then Some (word_of_int i) else None)"

text \<open>Modelled from the spec: the \<^verbatim>\<open>Hash\<close> method of this package's \<^verbatim>\<open>*Struct\<close> is defined
  elsewhere in the package. The spec describes a Record as an opaque handle and names
  no way to hash it, so the model takes it to be unhashable.\<close>

definition Struct_Hash_ok :: "native \<Rightarrow> bool" where
  "Struct_Hash_ok i = False"

text \<open>Whether \<^verbatim>\<open>Hash\<close> succeeds on a Starlark value: lists, dicts and sets are unhashable,
  a tuple is hashable when its elements are.\<close>

fun hashable :: "starlark_Value \<Rightarrow> bool" where
  "hashable SNone = True"
| "hashable (SBool b) = True"
| "hashable (SInt i) = True"
| "hashable (SFloat f) = True"
| "hashable (SString s) = True"
| "hashable (SList xs) = False"
| "hashable (STuple xs) = list_all hashable xs"
| "hashable (SDict kvs) = False"
| "hashable (SSet xs) = False"
| "hashable (SStruct i) = Struct_Hash_ok i"
| "hashable (SBuiltin name gofn) = True"

text \<open>\<^verbatim>\<open>(*starlark.Dict).SetKey\<close>: an existing key keeps its place and gets the new value, a
  new key is appended; an unhashable key is an error and leaves the dict as it was.
  \<^verbatim>\<open>(*starlark.Dict).Get\<close> looks a key up.\<close>

definition SetKey ::
  "(starlark_Value \<times> starlark_Value) list \<Rightarrow> starlark_Value \<Rightarrow> starlark_Value \<Rightarrow>
   error + (starlark_Value \<times> starlark_Value) list" where
  "SetKey d k v = (if hashable k then Inr (AList.update k v d) else Inl Unhashable)"

definition Get ::
  "(starlark_Value \<times> starlark_Value) list \<Rightarrow> starlark_Value \<Rightarrow> starlark_Value option" where
  "Get d k = map_of d k"

section \<open>The Go runtime: assignment to a map with interface keys\<close>

text \<open>\<^verbatim>\<open>m[k] = v\<close> on a map whose key type is \<^verbatim>\<open>interface{}\<close> panics when the dynamic type of
  \<open>k\<close> is not comparable: a slice, a map, a function, or an array or struct holding one.
  \<^verbatim>\<open>starlark.Tuple\<close> is a slice type.\<close>

fun comparable_type :: "gotype \<Rightarrow> bool" where
  "comparable_type (TSlice t) = False"
| "comparable_type (TMap k v) = False"
| "comparable_type (TFunc ins outs) = False"
| "comparable_type (TArray n t) = comparable_type t"
| "comparable_type (TNamed n u) = comparable_type u"
| "comparable_type t = True"

fun go_hashable :: "native \<Rightarrow> bool" where
  "go_hashable (GFunc ins outs f) = False"
| "go_hashable (GMap k v kvs) = False"
| "go_hashable (GSlice t xs) = False"
| "go_hashable (GArray t xs) = (comparable_type t \<and> list_all go_hashable xs)"
| "go_hashable (GStruct n fs) = list_all (\<lambda>f. go_hashable (snd f)) fs"
| "go_hashable (GValue v) = comparable_type (Value_Type v)"
| "go_hashable v = True"

definition mapassign ::
  "(native \<times> native) list \<Rightarrow> native \<Rightarrow> native \<Rightarrow> panic + (native \<times> native) list" where
  "mapassign m k v =
     (if go_hashable k then Inr (AList.update k v m) else Inl (UnhashableKey (TypeOf k)))"

section \<open>convert/conv.go\<close>

subsection \<open>Collaborators outside this file\<close>

text \<open>Modelled from the spec: \<^verbatim>\<open>NewStruct\<close> and the type \<^verbatim>\<open>*Struct\<close> are defined elsewhere in
  the package. The spec (4.3) has the Record Projector return an opaque handle that
  carries the original native value, which \<^verbatim>\<open>FromValue\<close> reads back as the field \<^verbatim>\<open>i\<close>.\<close>

definition NewStruct :: "native \<Rightarrow> starlark_Value" where
  "NewStruct v = SStruct v"

subsection \<open>MakeStarFn: the wrapper itself\<close>

text \<open>\<^verbatim>\<open>MakeStarFn(name, gofn)\<close> panics unless \<open>gofn\<close> is a function, and otherwise returns
  the builtin; what the builtin does when called is \<open>StarFn_call\<close> below.\<close>

definition MakeStarFn :: "string \<Rightarrow> native \<Rightarrow> panic + starlark_Value" where
  "MakeStarFn name gofn =
     (case TypeOf gofn of
        None \<Rightarrow> Inl NilDereference
      | Some t \<Rightarrow> if type_Kind t \<noteq> KFunc then Inl FnNotFunction else Inr (SBuiltin name gofn))"

subsection \<open>ToValue, makeVals, MakeList, MakeTuple, MakeDict\<close>

text \<open>What the code reads off its argument: the type assertion \<^verbatim>\<open>v.(starlark.Value)\<close>; the
  elements \<^verbatim>\<open>val.Index(i).Interface()\<close> for \<^verbatim>\<open>i < val.Len()\<close> of a slice or array (a
  \<^verbatim>\<open>starlark.Tuple\<close> is a slice of Starlark values); the keys \<^verbatim>\<open>r.MapKeys()\<close> of a map, each
  with its \<^verbatim>\<open>r.MapIndex(k)\<close>.\<close>

fun asValue :: "native \<Rightarrow> starlark_Value option" where
  "asValue (GValue val) = Some val"
| "asValue v = None"

fun Index_all :: "native \<Rightarrow> native list" where
  "Index_all (GSlice t xs) = xs"
| "Index_all (GArray t xs) = xs"
| "Index_all (GValue (STuple xs)) = map GValue xs"
| "Index_all v = []"

fun MapKeys_MapIndex :: "native \<Rightarrow> (native \<times> native) list" where
  "MapKeys_MapIndex (GMap kt vt kvs) = kvs"
| "MapKeys_MapIndex v = []"

text \<open>A measure for the recursion of \<^verbatim>\<open>ToValue\<close>: a Starlark value is passed through
  without recursion, so it weighs nothing.\<close>

definition weight :: "native \<Rightarrow> nat" where
  "weight v = (case asValue v of Some val \<Rightarrow> 0 | None \<Rightarrow> size v)"

lemma weight_le_size: "weight v \<le> size v"
  by (simp add: weight_def split: option.split)

lemma asValue_None_weight: "asValue v = None \<Longrightarrow> weight v = size v"
  by (simp add: weight_def)

lemma size_list_weight_le: "size_list weight xs \<le> size_list size xs"
  by (induction xs) (auto intro: add_mono weight_le_size)

lemma size_list_weight_GValue: "size_list (weight \<circ> GValue) xs = length xs"
  by (induction xs) (auto simp: weight_def)

lemma length_le_size_list: "length xs \<le> size_list f xs"
  by (induction xs) auto

lemma Index_all_weight: "size_list weight (Index_all v) \<le> size v"
proof (cases v rule: Index_all.cases)
  case (1 t xs)
  then show ?thesis using size_list_weight_le [of xs] by simp
next
  case (2 t xs)
  then show ?thesis using size_list_weight_le [of xs] by simp
next
  case (3 xs)
  then show ?thesis
    using length_le_size_list [of xs size] by (simp add: size_list_weight_GValue)
qed simp_all

lemma size_prod_weight_le:
  "size_list (size_prod weight weight) kvs \<le> size_list (size_prod size size) kvs"
proof (induction kvs)
  case Nil
  then show ?case by simp
next
  case (Cons kx kvs)
  obtain k x where kx: "kx = (k, x)" by (cases kx)
  show ?case
    using Cons weight_le_size [of k] weight_le_size [of x] by (simp add: kx)
qed

lemma MapKeys_MapIndex_weight:
  "size_list (size_prod weight weight) (MapKeys_MapIndex v) \<le> size v"
proof (cases v rule: MapKeys_MapIndex.cases)
  case (1 kt vt kvs)
  then show ?thesis using size_prod_weight_le [of kvs] by simp
qed simp_all

text \<open>
  \<^verbatim>\<open>ToValue\<close> passes a Starlark value through, and otherwise switches on the kind of
  \<open>v\<close>, or of what \<open>v\<close> points to when \<open>v\<close> is a pointer. Only \<open>kind\<close> is replaced by the
  pointee's: the accessors and the container constructors are still applied to \<open>v\<close>.
  \<^verbatim>\<open>makeVals\<close> (behind \<^verbatim>\<open>MakeList\<close> and \<^verbatim>\<open>MakeTuple\<close>) and \<^verbatim>\<open>MakeDict\<close> panic unless their
  argument is a slice or array, respectively a map, and stop at the first element that
  fails to convert. \<^verbatim>\<open>MakeDict\<close> drops the error of \<^verbatim>\<open>SetKey\<close>.
\<close>

function ToValue :: "native \<Rightarrow> fault + starlark_Value"
  and MakeList :: "native \<Rightarrow> fault + starlark_Value"
  and makeVals :: "native \<Rightarrow> fault + starlark_Value list"
  and makeVals_loop :: "native list \<Rightarrow> fault + starlark_Value list"
  and MakeDict :: "native \<Rightarrow> fault + starlark_Value"
  and MakeDict_loop ::
    "(native \<times> native) list \<Rightarrow> (starlark_Value \<times> starlark_Value) list \<Rightarrow>
     fault + (starlark_Value \<times> starlark_Value) list"
where
  "ToValue v =
     (case asValue v of
        Some val \<Rightarrow> Inr val
      | None \<Rightarrow>
        (let kind = (if Kind v = KPtr \<or> Kind v = KInterface then Kind (Elem v) else Kind v) in
         if kind = KBool then
           (case reflect_Bool v of Inl p \<Rightarrow> Inl (Panic p) | Inr b \<Rightarrow> Inr (SBool b))
         else if kind = KInt \<or> kind = KInt8 \<or> kind = KInt16 \<or> kind = KInt32 then
           (case reflect_Int v of Inl p \<Rightarrow> Inl (Panic p) | Inr i \<Rightarrow> Inr (MakeInt i))
         else if kind = KInt64 then
           (case reflect_Int v of Inl p \<Rightarrow> Inl (Panic p) | Inr i \<Rightarrow> Inr (MakeInt64 i))
         else if kind = KUint \<or> kind = KUint8 \<or> kind = KUint16 \<or> kind = KUint32 then
           (case reflect_Uint v of Inl p \<Rightarrow> Inl (Panic p) | Inr u \<Rightarrow> Inr (MakeUint u))
         else if kind = KUint64 then
           (case reflect_Uint v of Inl p \<Rightarrow> Inl (Panic p) | Inr u \<Rightarrow> Inr (MakeUint64 u))
         else if kind = KFloat32 \<or> kind = KFloat64 then
           (case reflect_Float v of Inl p \<Rightarrow> Inl (Panic p) | Inr f \<Rightarrow> Inr (SFloat f))
         else if kind = KFunc then
           (case MakeStarFn ''fn'' v of Inl p \<Rightarrow> Inl (Panic p) | Inr b \<Rightarrow> Inr b)
         else if kind = KMap then MakeDict v
         else if kind = KString then Inr (SString (reflect_String v))
         else if kind = KSlice \<or> kind = KArray then MakeList v
         else if kind = KStruct then Inr (NewStruct v)
         else Inl (Error (UnsupportedType (TypeOf v)))))"
| "MakeList v = (case makeVals v of Inl e \<Rightarrow> Inl e | Inr vals \<Rightarrow> Inr (SList vals))"
| "makeVals v =
     (if Kind v \<noteq> KSlice \<and> Kind v \<noteq> KArray
      then Inl (Panic (NotSliceOrArray (Kind v) (TypeOf v)))
      else makeVals_loop (Index_all v))"
| "makeVals_loop [] = Inr []"
| "makeVals_loop (x # xs) =
     (case ToValue x of
        Inl e \<Rightarrow> Inl e
      | Inr val \<Rightarrow>
        (case makeVals_loop xs of Inl e \<Rightarrow> Inl e | Inr vals \<Rightarrow> Inr (val # vals)))"
| "MakeDict v =
     (if Kind v \<noteq> KMap then Inl (Panic (CantMakeMap (TypeOf v)))
      else (case MakeDict_loop (MapKeys_MapIndex v) [] of
              Inl e \<Rightarrow> Inl e
            | Inr dict \<Rightarrow> Inr (SDict dict)))"
| "MakeDict_loop [] dict = Inr dict"
| "MakeDict_loop (kx # rest) dict =
     (case ToValue (fst kx) of
        Inl e \<Rightarrow> Inl e
      | Inr key \<Rightarrow>
        (case ToValue (snd kx) of
           Inl e \<Rightarrow> Inl e
         | Inr val \<Rightarrow>
           MakeDict_loop rest (case SetKey dict key val of Inl e \<Rightarrow> dict | Inr d \<Rightarrow> d)))"
  by pat_completeness auto

termination
proof (relation "measure (\<lambda>a. case a of
          Inl (Inl v) \<Rightarrow> 4 * weight v + 3
        | Inl (Inr (Inl v)) \<Rightarrow> 4 * size v + 2
        | Inl (Inr (Inr v)) \<Rightarrow> 4 * size v + 1
        | Inr (Inl xs) \<Rightarrow> 4 * size_list weight xs
        | Inr (Inr (Inl v)) \<Rightarrow> 4 * size v + 1
        | Inr (Inr (Inr (kvs, d))) \<Rightarrow> 4 * size_list (size_prod weight weight) kvs)",
    goal_cases)
  case 1
  show ?case by simp
next
  case (2 v kind)
  then show ?case by (simp add: asValue_None_weight)
next
  case (3 v kind)
  then show ?case by (simp add: asValue_None_weight)
next
  case (4 v)
  show ?case by simp
next
  case (5 v)
  show ?case using Index_all_weight [of v] by simp
next
  case (6 x xs)
  show ?case by simp
next
  case (7 x xs val)
  show ?case by simp
next
  case (8 v)
  show ?case using MapKeys_MapIndex_weight [of v] by simp
next
  case (9 kx rest dict)
  show ?case by (cases kx) simp
next
  case (10 kx rest dict key)
  show ?case by (cases kx) simp
next
  case (11 kx rest dict key val)
  show ?case by (cases kx) simp
qed

declare ToValue.simps [simp del] MakeList.simps [simp del] makeVals.simps [simp del]
  MakeDict.simps [simp del]

text \<open>\<^verbatim>\<open>MakeTuple\<close> returns the nil tuple together with the error when an element fails
  to convert.\<close>

definition MakeTuple :: "native \<Rightarrow> panic + starlark_Value list \<times> error option" where
  "MakeTuple v =
     (case makeVals v of
        Inl (Panic p) \<Rightarrow> Inl p
      | Inl (Error e) \<Rightarrow> Inr ([], Some e)
      | Inr vals \<Rightarrow> Inr (vals, None))"

subsection \<open>FromValue, FromTuple, FromList, FromDict, FromSet\<close>

text \<open>
  \<^verbatim>\<open>FromValue\<close> is a type switch. A \<^verbatim>\<open>starlark.Int\<close> becomes an \<^verbatim>\<open>int64\<close> if it fits, else a
  \<^verbatim>\<open>uint64\<close> if it fits, else the function panics. Lists and tuples become
  \<^verbatim>\<open>[]interface{}\<close>, a dict \<^verbatim>\<open>map[interface{}]interface{}\<close>, a set \<^verbatim>\<open>map[interface{}]bool\<close>.
  \<^verbatim>\<open>FromDict\<close> converts each key and stores under it what \<^verbatim>\<open>m.Get(k)\<close> returned, as it is.
  The default case returns the Starlark value itself.
\<close>

fun FromValue :: "starlark_Value \<Rightarrow> panic + native"
  and FromTuple :: "starlark_Value list \<Rightarrow> panic + native list"
  and FromList_loop :: "starlark_Value list \<Rightarrow> native list \<Rightarrow> panic + native list"
  and FromDict_loop ::
    "(starlark_Value \<times> starlark_Value) list \<Rightarrow> (starlark_Value \<times> starlark_Value) list \<Rightarrow>
     (native \<times> native) list \<Rightarrow> panic + (native \<times> native) list"
  and FromSet_loop :: "starlark_Value list \<Rightarrow> (native \<times> native) list \<Rightarrow> panic + (native \<times> native) list"
where
  "FromValue (SBool b) = Inr (GBool b)"
| "FromValue (SInt i) =
     (case Int64 i of
        Some x \<Rightarrow> Inr (GInt64 x)
      | None \<Rightarrow>
        (case Uint64 i of
           Some x \<Rightarrow> Inr (GUint64 x)
         | None \<Rightarrow> Inl (CantConvertInt i)))"
| "FromValue (SFloat f) = Inr (GFloat64 f)"
| "FromValue (SString s) = Inr (GString s)"
| "FromValue (SList xs) =
     (case FromList_loop xs [] of Inl p \<Rightarrow> Inl p | Inr ret \<Rightarrow> Inr (GSlice TInterface ret))"
| "FromValue (STuple xs) =
     (case FromTuple xs of Inl p \<Rightarrow> Inl p | Inr ret \<Rightarrow> Inr (GSlice TInterface ret))"
| "FromValue (SDict kvs) =
     (case FromDict_loop kvs kvs [] of
        Inl p \<Rightarrow> Inl p
      | Inr ret \<Rightarrow> Inr (GMap TInterface TInterface ret))"
| "FromValue (SSet xs) =
     (case FromSet_loop xs [] of
        Inl p \<Rightarrow> Inl p
      | Inr ret \<Rightarrow> Inr (GMap TInterface TBool ret))"
| "FromValue (SStruct i) = Inr i"
| "FromValue SNone = Inr (GValue SNone)"
| "FromValue (SBuiltin name gofn) = Inr (GValue (SBuiltin name gofn))"
| "FromTuple [] = Inr []"
| "FromTuple (x # xs) =
     (case FromValue x of
        Inl p \<Rightarrow> Inl p
      | Inr val \<Rightarrow> (case FromTuple xs of Inl p \<Rightarrow> Inl p | Inr ret \<Rightarrow> Inr (val # ret)))"
| "FromList_loop [] ret = Inr ret"
| "FromList_loop (x # xs) ret =
     (case FromValue x of Inl p \<Rightarrow> Inl p | Inr val \<Rightarrow> FromList_loop xs (ret @ [val]))"
| "FromDict_loop m [] ret = Inr ret"
| "FromDict_loop m (kv # rest) ret =
     (case FromValue (fst kv) of
        Inl p \<Rightarrow> Inl p
      | Inr key \<Rightarrow>
        (case mapassign ret key (case Get m (fst kv) of None \<Rightarrow> GNil | Some val \<Rightarrow> GValue val) of
           Inl p \<Rightarrow> Inl p
         | Inr ret' \<Rightarrow> FromDict_loop m rest ret'))"
| "FromSet_loop [] ret = Inr ret"
| "FromSet_loop (x # xs) ret =
     (case FromValue x of
        Inl p \<Rightarrow> Inl p
      | Inr val \<Rightarrow>
        (case mapassign ret val (GBool True) of
           Inl p \<Rightarrow> Inl p
         | Inr ret' \<Rightarrow> FromSet_loop xs ret'))"

text \<open>The exported names, on the Starlark containers.\<close>

definition FromList :: "starlark_Value list \<Rightarrow> panic + native list" where
  "FromList l = FromList_loop l []"

definition FromDict ::
  "(starlark_Value \<times> starlark_Value) list \<Rightarrow> panic + (native \<times> native) list" where
  "FromDict m = FromDict_loop m m []"

definition FromSet :: "starlark_Value list \<Rightarrow> panic + (native \<times> native) list" where
  "FromSet s = FromSet_loop s []"

subsection \<open>FromKwargs\<close>

record Kwarg =
  Name :: string
  Value :: native

text \<open>The loop of \<^verbatim>\<open>FromKwargs\<close> with its accumulator \<^verbatim>\<open>args\<close>: each tuple is converted
  whole by \<^verbatim>\<open>FromTuple\<close>, then its length and the type of its first element are checked;
  an error returns nil in place of \<^verbatim>\<open>args\<close>.\<close>

fun FromKwargs_loop :: "starlark_Value list list \<Rightarrow> Kwarg list \<Rightarrow> fault + Kwarg list" where
  "FromKwargs_loop [] args = Inr args"
| "FromKwargs_loop (t # ts) args =
     (case FromTuple t of
        Inl p \<Rightarrow> Inl (Panic p)
      | Inr tup \<Rightarrow>
        if length tup \<noteq> 2 then Inl (Error (KwargLen (length tup)))
        else (case tup ! 0 of
                GString s \<Rightarrow> FromKwargs_loop ts (args @ [\<lparr>Name = s, Value = tup ! 1\<rparr>])
              | x \<Rightarrow> Inl (Error (KwargName x))))"

definition FromKwargs :: "starlark_Value list list \<Rightarrow> fault + Kwarg list" where
  "FromKwargs kwargs = FromKwargs_loop kwargs []"

subsection \<open>MakeStarFn: calling the builtin\<close>

text \<open>
  Two operations of package \<^verbatim>\<open>reflect\<close> are parameters of the model:
  \<^item> \<open>conv argT v\<close> is \<^verbatim>\<open>reflect.ValueOf(v).Convert(argT)\<close>, which panics when Go has no
    conversion from the type of \<open>v\<close> to \<open>argT\<close>;
  \<^item> \<open>call gofn rvs s\<close> is \<^verbatim>\<open>reflect.ValueOf(gofn).Call(rvs)\<close> in the state \<open>s\<close> of the host
    program: it runs the Go function, which may change the state and may panic, and
    returns its results as \<^verbatim>\<open>reflect.Value\<close>s, each with the declared type of its
    result slot and its content (\<open>GNil\<close> for a nil interface).
\<close>

type_synonym rvalue = "gotype \<times> native"

type_synonym goconv = "gotype \<Rightarrow> native \<Rightarrow> panic + native"

type_synonym 's gocall = "native \<Rightarrow> native list \<Rightarrow> 's \<Rightarrow> (panic + rvalue list) \<times> 's"

definition errType :: gotype where
  "errType = TError"

text \<open>\<^verbatim>\<open>t.In(i)\<close> for \<^verbatim>\<open>i < t.NumIn()\<close>, where \<^verbatim>\<open>t = reflect.TypeOf(gofn)\<close> is a function type
  (\<^verbatim>\<open>MakeStarFn\<close> has panicked otherwise).\<close>

definition func_In :: "native \<Rightarrow> gotype list" where
  "func_In gofn = (case TypeOf gofn of Some (TFunc ins outs) \<Rightarrow> ins | _ \<Rightarrow> [])"

text \<open>The loop over the converted arguments: an argument whose type is not the
  declared one is converted to it.\<close>

fun convert_args :: "goconv \<Rightarrow> gotype list \<Rightarrow> native list \<Rightarrow> panic + native list" where
  "convert_args conv ts [] = Inr []"
| "convert_args conv [] (v # vals) = Inl IndexOutOfRange"
| "convert_args conv (argT # ts) (v # vals) =
     (case TypeOf v of
        None \<Rightarrow> Inl ZeroValueType
      | Some T \<Rightarrow>
        (case (if T \<noteq> argT then conv argT v else Inr v) of
           Inl p \<Rightarrow> Inl p
         | Inr val \<Rightarrow>
           (case convert_args conv ts vals of
              Inl p \<Rightarrow> Inl p
            | Inr rvs \<Rightarrow> Inr (val # rvs))))"

text \<open>
  The function that \<^verbatim>\<open>MakeStarFn\<close> hands to \<^verbatim>\<open>starlark.NewBuiltin\<close>, for the wrapped
  \<open>gofn\<close>: it is given the positional arguments \<open>args\<close> and the named arguments
  \<open>kwargs\<close> (and the thread and the builtin, which it does not read) and returns a
  Starlark value and an error, or panics.
\<close>

definition StarFn_call ::
  "goconv \<Rightarrow> 's gocall \<Rightarrow> native \<Rightarrow> starlark_Value list \<Rightarrow> starlark_Value list list \<Rightarrow> 's \<Rightarrow>
   (panic + starlark_Value \<times> error option) \<times> 's" where
  "StarFn_call conv call gofn args kwargs s =
     (if length args \<noteq> length (func_In gofn)
      then (Inr (SNone, Some (ArityMismatch (length (func_In gofn)) (length args))), s)
      else
        (case FromTuple args of
           Inl p \<Rightarrow> (Inl p, s)
         | Inr vals \<Rightarrow>
           (case convert_args conv (func_In gofn) vals of
              Inl p \<Rightarrow> (Inl p, s)
            | Inr rvs \<Rightarrow>
              (case call gofn rvs s of
                 (Inl p, s') \<Rightarrow> (Inl p, s')
               | (Inr out, s') \<Rightarrow>
                 (if length out = 0 then (Inr (SNone, None), s')
                  else
                    (let last = out ! (length out - 1);
                         err = (if fst last = errType \<and> snd last \<noteq> GNil
                                then Some (NativeError (snd last)) else None);
                         out = (if fst last = errType then take (length out - 1) out else out)
                     in
                       if length out = 1 then
                         (case ToValue (snd (out ! 0)) of
                            Inl (Panic p) \<Rightarrow> (Inl p, s')
                          | Inl (Error err2) \<Rightarrow> (Inr (SNone, Some err2), s')
                          | Inr v \<Rightarrow> (Inr (v, err), s'))
                       else
                         (case MakeTuple (GSlice TInterface (map snd out)) of
                            Inl p \<Rightarrow> (Inl p, s')
                          | Inr (tup, err2) \<Rightarrow>
                            if err \<noteq> None then (Inr (SNone, err2), s')
                            else (Inr (STuple tup, err), s'))))))))"

section \<open>Notions used in the statements\<close>

text \<open>Encoding a Go value and decoding the result again.\<close>

definition decode_encoded :: "native \<Rightarrow> fault + native" where
  "decode_encoded x =
     (case ToValue x of
        Inl e \<Rightarrow> Inl e
      | Inr v \<Rightarrow> (case FromValue v of Inl p \<Rightarrow> Inl (Panic p) | Inr y \<Rightarrow> Inr y))"

text \<open>The width normalisation of the documentation: a scalar keeps its value and its
  signedness and gets the 64-bit type of its family.\<close>

fun widen64 :: "native \<Rightarrow> native" where
  "widen64 (GInt w) = GInt64 w"
| "widen64 (GInt8 w) = GInt64 (scast w)"
| "widen64 (GInt16 w) = GInt64 (scast w)"
| "widen64 (GInt32 w) = GInt64 (scast w)"
| "widen64 (GUint w) = GUint64 w"
| "widen64 (GUint8 w) = GUint64 (ucast w)"
| "widen64 (GUint16 w) = GUint64 (ucast w)"
| "widen64 (GUint32 w) = GUint64 (ucast w)"
| "widen64 (GFloat32 w) = GFloat64 (F64_of_F32 w)"
| "widen64 v = v"

text \<open>What one pass of the loop of \<^verbatim>\<open>FromKwargs\<close> makes of a single tuple.\<close>

definition kwarg_of :: "starlark_Value list \<Rightarrow> fault + Kwarg" where
  "kwarg_of t =
     (case FromTuple t of
        Inl p \<Rightarrow> Inl (Panic p)
      | Inr tup \<Rightarrow>
        if length tup \<noteq> 2 then Inl (Error (KwargLen (length tup)))
        else (case tup ! 0 of
                GString s \<Rightarrow> Inr \<lparr>Name = s, Value = tup ! 1\<rparr>
              | x \<Rightarrow> Inl (Error (KwargName x))))"

section \<open>Scalars\<close>

lemma Kind_simps [simp]:
  "Kind GNil = KInvalid" "Kind (GBool b) = KBool"
  "Kind (GInt w) = KInt" "Kind (GInt8 w8) = KInt8" "Kind (GInt16 w16) = KInt16"
  "Kind (GInt32 w32) = KInt32" "Kind (GInt64 w) = KInt64"
  "Kind (GUint w) = KUint" "Kind (GUint8 w8) = KUint8" "Kind (GUint16 w16) = KUint16"
  "Kind (GUint32 w32) = KUint32" "Kind (GUint64 w) = KUint64" "Kind (GUintptr w) = KUintptr"
  "Kind (GFloat32 w32) = KFloat32" "Kind (GFloat64 f) = KFloat64"
  "Kind (GString s) = KString" "Kind (GArray t xs) = KArray" "Kind (GChan t c) = KChan"
  "Kind (GFunc ins outs fid) = KFunc" "Kind (GMap kt vt kvs) = KMap"
  "Kind (GNilPtr t) = KPtr" "Kind (GSlice t xs) = KSlice" "Kind (GStruct n fs) = KStruct"
  by (simp_all add: Kind_def)

lemma ToValue_signed:
  "ToValue (GInt w) = Inr (SInt (sint w))"
  "ToValue (GInt8 a) = Inr (SInt (sint (scast a :: 64 word)))"
  "ToValue (GInt16 b) = Inr (SInt (sint (scast b :: 64 word)))"
  "ToValue (GInt32 c) = Inr (SInt (sint (scast c :: 64 word)))"
  "ToValue (GInt64 w) = Inr (SInt (sint w))"
  by (simp_all add: ToValue.simps MakeInt_def MakeInt64_def)

lemma ToValue_unsigned:
  "ToValue (GUint w) = Inr (SInt (uint w))"
  "ToValue (GUint8 a) = Inr (SInt (uint (ucast a :: 64 word)))"
  "ToValue (GUint16 b) = Inr (SInt (uint (ucast b :: 64 word)))"
  "ToValue (GUint32 c) = Inr (SInt (uint (ucast c :: 64 word)))"
  "ToValue (GUint64 w) = Inr (SInt (uint w))"
  by (simp_all add: ToValue.simps MakeUint_def MakeUint64_def)

lemma ToValue_other_scalars:
  "ToValue (GBool b) = Inr (SBool b)"
  "ToValue (GFloat32 x) = Inr (SFloat (F64_of_F32 x))"
  "ToValue (GFloat64 f) = Inr (SFloat f)"
  "ToValue (GString s) = Inr (SString s)"
  by (simp_all add: ToValue.simps)

lemma sint_scast_64:
  "sint (scast (a :: 8 word) :: 64 word) = sint a"
  "sint (scast (b :: 16 word) :: 64 word) = sint b"
  "sint (scast (c :: 32 word) :: 64 word) = sint c"
  by (simp_all add: sint_up_scast is_up)

lemma uint_ucast_64:
  "uint (ucast (a :: 8 word) :: 64 word) = uint a"
  "uint (ucast (b :: 16 word) :: 64 word) = uint b"
  "uint (ucast (c :: 32 word) :: 64 word) = uint c"
  by (simp_all add: uint_up_ucast is_up)

lemma sint_word_of_int_64:
  assumes "- (2 ^ 63) \<le> i" "i < 2 ^ 63"
  shows "sint (word_of_int i :: 64 word) = i"
  using assms by (simp add: sint_sbintrunc' signed_take_bit_int_eq_self)

lemma uint_word_of_int_64:
  assumes "0 \<le> i" "i < 2 ^ 64"
  shows "uint (word_of_int i :: 64 word) = i"
  using assms by (simp add: uint_word_of_int take_bit_int_eq_self)

text \<open>
  Claim C6. \<^verbatim>\<open>ToValue\<close> on a signed integer of 8, 16 or 32 bits yields the Starlark
  integer whose value is that of the sign extension to 64 bits, which is the value of
  the input; on an unsigned integer of 8, 16 or 32 bits, the value of the zero
  extension to 64 bits, which is the value of the input; on an \<^verbatim>\<open>int64\<close> (and an \<^verbatim>\<open>int\<close>) its
  signed value and on a \<^verbatim>\<open>uint64\<close> (and a \<^verbatim>\<open>uint\<close>) its unsigned value.
\<close>

theorem ToValue_integer_widening:
  "ToValue (GInt8 a) = Inr (SInt (sint (scast a :: 64 word))) \<and> sint (scast a :: 64 word) = sint a \<and>
   ToValue (GInt16 b) = Inr (SInt (sint (scast b :: 64 word))) \<and> sint (scast b :: 64 word) = sint b \<and>
   ToValue (GInt32 c) = Inr (SInt (sint (scast c :: 64 word))) \<and> sint (scast c :: 64 word) = sint c \<and>
   ToValue (GUint8 d) = Inr (SInt (uint (ucast d :: 64 word))) \<and> uint (ucast d :: 64 word) = uint d \<and>
   ToValue (GUint16 e) = Inr (SInt (uint (ucast e :: 64 word))) \<and> uint (ucast e :: 64 word) = uint e \<and>
   ToValue (GUint32 f) = Inr (SInt (uint (ucast f :: 64 word))) \<and> uint (ucast f :: 64 word) = uint f \<and>
   ToValue (GInt64 g) = Inr (SInt (sint g)) \<and>
   ToValue (GUint64 h) = Inr (SInt (uint h)) \<and>
   ToValue (GInt i) = Inr (SInt (sint i)) \<and>
   ToValue (GUint u) = Inr (SInt (uint u))"
  by (simp only: ToValue_signed ToValue_unsigned sint_scast_64 uint_ucast_64 simp_thms)

text \<open>
  Claim C7. \<^verbatim>\<open>FromValue\<close> on a Starlark integer \<open>i\<close>: if \<open>i\<close> is in the range of \<^verbatim>\<open>int64\<close>
  the result is the \<^verbatim>\<open>int64\<close> of value \<open>i\<close>; otherwise, if \<open>i\<close> is in the range of \<^verbatim>\<open>uint64\<close>,
  the \<^verbatim>\<open>uint64\<close> of value \<open>i\<close>; otherwise the call panics (no error is returned). No
  other case exists, so no narrower integer type is ever produced.
\<close>

theorem FromValue_Int_by_range:
  "(- (2 ^ 63) \<le> i \<and> i < 2 ^ 63 \<longrightarrow>
      FromValue (SInt i) = Inr (GInt64 (word_of_int i)) \<and> sint (word_of_int i :: 64 word) = i) \<and>
   (2 ^ 63 \<le> i \<and> i < 2 ^ 64 \<longrightarrow>
      FromValue (SInt i) = Inr (GUint64 (word_of_int i)) \<and> uint (word_of_int i :: 64 word) = i) \<and>
   (i < - (2 ^ 63) \<or> 2 ^ 64 \<le> i \<longrightarrow> FromValue (SInt i) = Inl (CantConvertInt i)) \<and>
   ((\<exists>x. FromValue (SInt i) = Inr (GInt64 x)) \<or> (\<exists>x. FromValue (SInt i) = Inr (GUint64 x)) \<or>
    FromValue (SInt i) = Inl (CantConvertInt i))"
proof (intro conjI impI)
  assume r: "- (2 ^ 63) \<le> i \<and> i < 2 ^ 63"
  then show "FromValue (SInt i) = Inr (GInt64 (word_of_int i))"
    by (simp add: Int64_def)
  from r show "sint (word_of_int i :: 64 word) = i"
    by (simp add: sint_word_of_int_64)
next
  assume r: "2 ^ 63 \<le> i \<and> i < 2 ^ 64"
  then show "FromValue (SInt i) = Inr (GUint64 (word_of_int i))"
    by (simp add: Int64_def Uint64_def)
  from r show "uint (word_of_int i :: 64 word) = i"
    by (simp add: uint_word_of_int_64)
next
  assume "i < - (2 ^ 63) \<or> 2 ^ 64 \<le> i"
  then show "FromValue (SInt i) = Inl (CantConvertInt i)"
    by (auto simp: Int64_def Uint64_def)
next
  show "(\<exists>x. FromValue (SInt i) = Inr (GInt64 x)) \<or> (\<exists>x. FromValue (SInt i) = Inr (GUint64 x)) \<or>
    FromValue (SInt i) = Inl (CantConvertInt i)"
    by (simp split: option.split)
qed

theorem FromValue_Int_by_range_witness:
  "FromValue (SInt (- 7)) = Inr (GInt64 (- 7)) \<and>
   FromValue (SInt (2 ^ 63)) = Inr (GUint64 (2 ^ 63)) \<and>
   FromValue (SInt (2 ^ 64)) = Inl (CantConvertInt (2 ^ 64))"
  using FromValue_Int_by_range [of "- 7"] FromValue_Int_by_range [of "2 ^ 63"]
    FromValue_Int_by_range [of "2 ^ 64"]
  by simp

subsection \<open>Encoding and decoding again\<close>

lemma Int64_in_range: "- (2 ^ 63) \<le> i \<Longrightarrow> i < 2 ^ 63 \<Longrightarrow> Int64 i = Some (word_of_int i)"
  by (simp add: Int64_def)

lemma Int64_sint: "Int64 (sint (w :: 64 word)) = Some w"
  using sint_ge [of w] sint_lt [of w] by (simp add: Int64_def)

lemma FromValue_SInt_sint: "FromValue (SInt (sint (w :: 64 word))) = Inr (GInt64 w)"
  by (simp add: Int64_sint)

lemma uint_ge_min_int64: "- (2 ^ 63) \<le> uint w"
  by (rule order_trans [of _ 0]) simp_all

lemma sint_ucast_64:
  assumes "uint (x :: 'a :: len word) < 2 ^ 63"
  shows "sint (ucast x :: 64 word) = uint x"
proof -
  have "sint (ucast x :: 64 word) = sint (word_of_int (uint x) :: 64 word)"
    by (simp only: ucast_eq)
  also have "\<dots> = uint x"
    by (rule sint_word_of_int_64) (rule uint_ge_min_int64, rule assms)
  finally show ?thesis .
qed

lemma sint_ucast_small:
  "sint (ucast (a :: 8 word) :: 64 word) = uint a"
  "sint (ucast (b :: 16 word) :: 64 word) = uint b"
  "sint (ucast (c :: 32 word) :: 64 word) = uint c"
proof -
  have "uint a < 2 ^ 8" "uint b < 2 ^ 16" "uint c < 2 ^ 32"
    using uint_lt2p [of a] uint_lt2p [of b] uint_lt2p [of c] by simp_all
  then have "uint a < 2 ^ 63" "uint b < 2 ^ 63" "uint c < 2 ^ 63"
    by simp_all
  then show "sint (ucast a :: 64 word) = uint a" "sint (ucast b :: 64 word) = uint b"
    "sint (ucast c :: 64 word) = uint c"
    by (simp_all add: sint_ucast_64)
qed

text \<open>A Starlark integer made from an unsigned 64-bit value comes back signed when it
  is below \<open>2^63\<close>: \<^verbatim>\<open>FromValue\<close> asks \<^verbatim>\<open>Int64\<close> first.\<close>

lemma FromValue_SInt_uint:
  "FromValue (SInt (uint (w :: 64 word))) = Inr (if w < 2 ^ 63 then GInt64 w else GUint64 w)"
proof (cases "w < 2 ^ 63")
  case True
  then have "uint w < 2 ^ 63" by (simp add: word_less_def)
  then have "Int64 (uint w) = Some (word_of_int (uint w))"
    by (rule Int64_in_range [OF uint_ge_min_int64])
  with True show ?thesis by simp
next
  case False
  then have "2 ^ 63 \<le> uint w" by (simp add: word_less_def not_less)
  moreover have "uint w < 2 ^ 64" using uint_lt2p [of w] by simp
  ultimately have "Int64 (uint w) = None" "Uint64 (uint w) = Some w"
    by (simp_all add: Int64_def Uint64_def)
  with False show ?thesis by simp
qed

lemma ucast_small_lt:
  "(ucast (a :: 8 word) :: 64 word) < 2 ^ 63"
  "(ucast (b :: 16 word) :: 64 word) < 2 ^ 63"
  "(ucast (c :: 32 word) :: 64 word) < 2 ^ 63"
proof -
  have "uint a < 2 ^ 8" "uint b < 2 ^ 16" "uint c < 2 ^ 32"
    using uint_lt2p [of a] uint_lt2p [of b] uint_lt2p [of c] by simp_all
  then show "(ucast a :: 64 word) < 2 ^ 63" "(ucast b :: 64 word) < 2 ^ 63"
    "(ucast c :: 64 word) < 2 ^ 63"
    by (simp_all add: word_less_def uint_ucast_64)
qed

text \<open>
  Claim C3, as the code has it. Decoding the encoding of a bool, a string, a float or
  a signed integer yields the value in the 64-bit type of its family (\<open>widen64\<close>).
  Decoding the encoding of an unsigned integer keeps the number but not the
  signedness: the result is the \<^verbatim>\<open>int64\<close> of the same value when the value is below
  \<open>2^63\<close> (so always for \<^verbatim>\<open>uint8\<close>, \<^verbatim>\<open>uint16\<close>, \<^verbatim>\<open>uint32\<close>) and a \<^verbatim>\<open>uint64\<close> only from \<open>2^63\<close> on.
\<close>

theorem decode_encoded_scalars:
  "decode_encoded (GBool t) = Inr (widen64 (GBool t)) \<and>
   decode_encoded (GString s) = Inr (widen64 (GString s)) \<and>
   decode_encoded (GFloat32 x) = Inr (widen64 (GFloat32 x)) \<and>
   decode_encoded (GFloat64 y) = Inr (widen64 (GFloat64 y)) \<and>
   decode_encoded (GInt i) = Inr (widen64 (GInt i)) \<and>
   decode_encoded (GInt8 a) = Inr (widen64 (GInt8 a)) \<and>
   decode_encoded (GInt16 b) = Inr (widen64 (GInt16 b)) \<and>
   decode_encoded (GInt32 c) = Inr (widen64 (GInt32 c)) \<and>
   decode_encoded (GInt64 d) = Inr (widen64 (GInt64 d)) \<and>
   decode_encoded (GUint8 e) = Inr (GInt64 (ucast e)) \<and> sint (ucast e :: 64 word) = uint e \<and>
   decode_encoded (GUint16 f) = Inr (GInt64 (ucast f)) \<and> sint (ucast f :: 64 word) = uint f \<and>
   decode_encoded (GUint32 g) = Inr (GInt64 (ucast g)) \<and> sint (ucast g :: 64 word) = uint g \<and>
   decode_encoded (GUint u) = Inr (if u < 2 ^ 63 then GInt64 u else GUint64 u) \<and>
   decode_encoded (GUint64 h) = Inr (if h < 2 ^ 63 then GInt64 h else GUint64 h)"
  by (simp only: decode_encoded_def ToValue_signed ToValue_unsigned ToValue_other_scalars
      FromValue_SInt_sint FromValue_SInt_uint FromValue.simps(1,3,4) ucast_small_lt
      sint_ucast_small widen64.simps sum.case if_True simp_thms)

text \<open>Claim C3 as stated fails on an unsigned integer: the \<^verbatim>\<open>uint8\<close> 5 comes back as the
  \<^verbatim>\<open>int64\<close> 5, which is not the \<^verbatim>\<open>uint64\<close> 5 that widening the original gives.\<close>

theorem decode_encoded_unsigned_counterexample:
  "decode_encoded (GUint8 5) = Inr (GInt64 5) \<and>
   decode_encoded (GUint8 5) \<noteq> Inr (widen64 (GUint8 5))"
  by (simp add: decode_encoded_def ToValue_unsigned Int64_def)

section \<open>Pointers\<close>

text \<open>What \<^verbatim>\<open>ToValue\<close> does with a non-nil pointer, by the kind of the pointee: the
  accessors and \<^verbatim>\<open>MakeStarFn\<close>, \<^verbatim>\<open>MakeDict\<close>, \<^verbatim>\<open>MakeList\<close> reject the pointer, \<^verbatim>\<open>String\<close> prints its
  type, and only \<^verbatim>\<open>NewStruct\<close> takes it.\<close>

lemma ToValue_GPtr:
  assumes "TypeOf p = Some t"
  shows "ToValue (GPtr p) =
    (let kind = type_Kind t in
     if kind = KBool then Inl (Panic (ReflectValueError ''reflect.Value.Bool'' KPtr))
     else if kind = KInt \<or> kind = KInt8 \<or> kind = KInt16 \<or> kind = KInt32 \<or> kind = KInt64
       then Inl (Panic (ReflectValueError ''reflect.Value.Int'' KPtr))
     else if kind = KUint \<or> kind = KUint8 \<or> kind = KUint16 \<or> kind = KUint32 \<or> kind = KUint64
       then Inl (Panic (ReflectValueError ''reflect.Value.Uint'' KPtr))
     else if kind = KFloat32 \<or> kind = KFloat64
       then Inl (Panic (ReflectValueError ''reflect.Value.Float'' KPtr))
     else if kind = KFunc then Inl (Panic FnNotFunction)
     else if kind = KMap then Inl (Panic (CantMakeMap (Some (TPtr t))))
     else if kind = KString then Inr (SString (''<*'' @ type_String t @ '' Value>''))
     else if kind = KSlice \<or> kind = KArray
       then Inl (Panic (NotSliceOrArray KPtr (Some (TPtr t))))
     else if kind = KStruct then Inr (SStruct (GPtr p))
     else Inl (Error (UnsupportedType (Some (TPtr t)))))"
  using assms
  by (simp add: ToValue.simps MakeList.simps makeVals.simps MakeDict.simps MakeStarFn_def
      Kind_def NewStruct_def Let_def)

text \<open>
  Claim C5 on the code. For a pointer, \<^verbatim>\<open>ToValue\<close> replaces \<open>kind\<close> by the kind of the
  pointee but goes on with the pointer itself: on a pointer to an \<^verbatim>\<open>int\<close>, a \<^verbatim>\<open>bool\<close> or a
  \<^verbatim>\<open>float64\<close> the accessor panics, and on a pointer to a string the result is the text
  \<^verbatim>\<open><*string Value>\<close>; the pointee converted directly gives its value.
\<close>

theorem ToValue_pointer_to_scalar:
  "ToValue (GPtr (GInt 5)) = Inl (Panic (ReflectValueError ''reflect.Value.Int'' KPtr)) \<and>
   ToValue (GInt 5) = Inr (SInt 5) \<and>
   ToValue (GPtr (GBool True)) = Inl (Panic (ReflectValueError ''reflect.Value.Bool'' KPtr)) \<and>
   ToValue (GPtr (GFloat64 (F64 0))) =
     Inl (Panic (ReflectValueError ''reflect.Value.Float'' KPtr)) \<and>
   ToValue (GPtr (GString ''abc'')) = Inr (SString ''<*string Value>'') \<and>
   ToValue (GString ''abc'') = Inr (SString ''abc'')"
  by (simp add: ToValue.simps Kind_def MakeInt_def)

section \<open>Dicts\<close>

text \<open>No value of a map that \<^verbatim>\<open>FromDict\<close> returns has been converted: each is the
  Starlark value that \<^verbatim>\<open>Get\<close> returned.\<close>

lemma list_all_snd_update:
  "list_all P (map snd al) \<Longrightarrow> P v \<Longrightarrow> list_all P (map snd (AList.update k v al))"
  by (induction al) auto

lemma FromDict_loop_values:
  assumes "FromDict_loop m kvs ret = Inr ret'"
    and "list_all (\<lambda>v. v = GNil \<or> (\<exists>val. v = GValue val)) (map snd ret)"
  shows "list_all (\<lambda>v. v = GNil \<or> (\<exists>val. v = GValue val)) (map snd ret')"
  using assms
proof (induction kvs arbitrary: ret)
  case Nil
  then show ?case by simp
next
  case (Cons kv rest)
  let ?val = "case Get m (fst kv) of None \<Rightarrow> GNil | Some val \<Rightarrow> GValue val"
  from Cons.prems(1) obtain key where key: "FromValue (fst kv) = Inr key"
    by (auto split: sum.splits)
  with Cons.prems(1) have run: "FromDict_loop m rest (AList.update key ?val ret) = Inr ret'"
    by (auto simp: mapassign_def split: sum.splits if_splits)
  have "?val = GNil \<or> (\<exists>val. ?val = GValue val)"
    by (simp split: option.split)
  with Cons.prems(2)
  have "list_all (\<lambda>v. v = GNil \<or> (\<exists>val. v = GValue val)) (map snd (AList.update key ?val ret))"
    by (rule list_all_snd_update)
  with run show ?case by (rule Cons.IH)
qed

lemma FromDict_values_not_decoded:
  assumes "FromDict m = Inr ret"
  shows "list_all (\<lambda>v. v = GNil \<or> (\<exists>val. v = GValue val)) (map snd ret)"
proof -
  from assms have "FromDict_loop m m [] = Inr ret"
    by (simp add: FromDict_def)
  then show ?thesis
    by (rule FromDict_loop_values) simp
qed

text \<open>
  Claim C4 on the code. The Go map \<^verbatim>\<open>{"a": 1}\<close> encodes to a dict with the one entry
  \<^verbatim>\<open>"a": 1\<close>; decoding that dict yields a map whose key is the Go string \<^verbatim>\<open>"a"\<close> and whose
  value is still the \<^verbatim>\<open>starlark.Int\<close> 1, not the \<^verbatim>\<open>int64\<close> 1.
\<close>

theorem FromDict_keeps_values_encoded:
  "ToValue (GMap TString TInt [(GString ''a'', GInt 1)]) = Inr (SDict [(SString ''a'', SInt 1)]) \<and>
   FromValue (SDict [(SString ''a'', SInt 1)]) =
     Inr (GMap TInterface TInterface [(GString ''a'', GValue (SInt 1))]) \<and>
   FromValue (SInt 1) = Inr (GInt64 1)"
  by (simp add: ToValue.simps MakeDict.simps SetKey_def MakeInt_def Get_def mapassign_def
      Int64_def)

section \<open>Named arguments\<close>

lemma FromKwargs_loop_step:
  "FromKwargs_loop (t # ts) args =
     (case kwarg_of t of Inl f \<Rightarrow> Inl f | Inr k \<Rightarrow> FromKwargs_loop ts (args @ [k]))"
  by (simp add: kwarg_of_def split: sum.split native.split)

lemma FromKwargs_loop_first_failure:
  "FromKwargs_loop kwargs args =
     (case find (\<lambda>t. isl (kwarg_of t)) kwargs of
        None \<Rightarrow> Inr (args @ map (\<lambda>t. projr (kwarg_of t)) kwargs)
      | Some t \<Rightarrow> Inl (projl (kwarg_of t)))"
proof (induction kwargs arbitrary: args)
  case Nil
  show ?case by simp
next
  case (Cons t ts)
  show ?case
  proof (cases "kwarg_of t")
    case (Inl f)
    then show ?thesis by (simp add: FromKwargs_loop_step del: FromKwargs_loop.simps)
  next
    case (Inr k)
    then show ?thesis
      by (simp add: FromKwargs_loop_step Cons.IH del: FromKwargs_loop.simps split: option.split)
  qed
qed

text \<open>
  Claim C9, as the code has it. \<^verbatim>\<open>FromKwargs\<close> fails with the failure of the first tuple
  that fails, and with nothing else: a panic when converting an element of that tuple
  panics (all elements are converted before the checks), otherwise the length error
  with the actual length when the tuple has not two elements, otherwise the name error
  with the converted first element when that is not a Go string (\<open>kwarg_of\<close>). When no
  tuple fails the result is the list of the pairs, in input order.
\<close>

theorem FromKwargs_first_failure:
  "FromKwargs kwargs =
     (case find (\<lambda>t. isl (kwarg_of t)) kwargs of
        None \<Rightarrow> Inr (map (\<lambda>t. projr (kwarg_of t)) kwargs)
      | Some t \<Rightarrow> Inl (projl (kwarg_of t)))"
  by (simp add: FromKwargs_def FromKwargs_loop_first_failure split: option.split)

theorem FromKwargs_first_failure_witness:
  "FromKwargs [[SString ''x'', SInt 1], [SString ''y'', SInt 2]] =
     Inr [\<lparr>Name = ''x'', Value = GInt64 1\<rparr>, \<lparr>Name = ''y'', Value = GInt64 2\<rparr>] \<and>
   FromKwargs [[SString ''x'', SInt 1], [SString ''y'', SInt 2, SInt 3], [SInt 4]] =
     Inl (Error (KwargLen 3)) \<and>
   FromKwargs [[SString ''x'', SInt 1], [SInt 1, SString ''x''], [SInt 4]] =
     Inl (Error (KwargName (GInt64 1)))"
  using FromKwargs_first_failure [of "[[SString ''x'', SInt 1], [SString ''y'', SInt 2]]"]
    FromKwargs_first_failure [of "[[SString ''x'', SInt 1], [SString ''y'', SInt 2, SInt 3], [SInt 4]]"]
    FromKwargs_first_failure [of "[[SString ''x'', SInt 1], [SInt 1, SString ''x''], [SInt 4]]"]
  by (simp add: kwarg_of_def Int64_def)

text \<open>Claim C9 as stated fails where a conversion panics: a well-formed pair whose value
  is the integer \<open>2^64\<close> gives no list, and a tuple of three elements holding \<open>2^64\<close> gives
  no length error.\<close>

theorem FromKwargs_panic_counterexample:
  "FromKwargs [[SString ''x'', SInt (2 ^ 64)]] = Inl (Panic (CantConvertInt (2 ^ 64))) \<and>
   FromKwargs [[SString ''x'', SInt 1, SInt (2 ^ 64)]] = Inl (Panic (CantConvertInt (2 ^ 64))) \<and>
   FromKwargs [[SString ''x'', SInt 1, SInt (2 ^ 64)]] \<noteq> Inl (Error (KwargLen 3))"
  by (simp add: FromKwargs_def Int64_def Uint64_def)

section \<open>Calling a wrapped function\<close>

text \<open>
  Claim C8. When the number of positional arguments differs from the number of
  declared parameters, the call returns None with the arity error naming both
  numbers, whatever the arguments, the conversion and the wrapped function are, and
  leaves the state of the host program as it was: nothing is converted or called.
\<close>

theorem StarFn_call_arity_mismatch:
  "length args \<noteq> length ins \<Longrightarrow>
   StarFn_call conv call (GFunc ins outs fid) args kwargs s =
     (Inr (SNone, Some (ArityMismatch (length ins) (length args))), s)"
  by (simp add: StarFn_call_def func_In_def)

theorem StarFn_call_arity_mismatch_witness:
  "StarFn_call (\<lambda>t v. Inr v) (\<lambda>gofn rvs (s :: nat). (Inr [(TInt64, GInt64 0)], Suc s))
     (GFunc [TInt64] [TInt64] 0) [SInt (2 ^ 64), SInt 1] [] 0 =
     (Inr (SNone, Some (ArityMismatch 1 2)), 0)"
  using StarFn_call_arity_mismatch
    [of "[SInt (2 ^ 64), SInt 1]" "[TInt64]" "\<lambda>t v. Inr v"
        "\<lambda>gofn rvs (s :: nat). (Inr [(TInt64, GInt64 0)], Suc s)" "[TInt64]" 0 "[]" 0]
  by simp

text \<open>
  Claim C10. The named arguments are not read: two calls that differ only in them
  have the same result (value, error or panic) and leave the same state.
\<close>

theorem StarFn_call_ignores_kwargs:
  "StarFn_call conv call gofn args kwargs s = StarFn_call conv call gofn args kwargs' s"
  by (simp add: StarFn_call_def)

theorem StarFn_call_ignores_kwargs_witness:
  "StarFn_call (\<lambda>t v. Inr v) (\<lambda>gofn rvs (s :: nat). (Inr [(TInt64, hd rvs)], Suc s))
     (GFunc [TInt64] [TInt64] 0) [SInt 3] [[SString ''x'', SInt 1]] 0 =
   StarFn_call (\<lambda>t v. Inr v) (\<lambda>gofn rvs (s :: nat). (Inr [(TInt64, hd rvs)], Suc s))
     (GFunc [TInt64] [TInt64] 0) [SInt 3] [] 0"
  by (rule StarFn_call_ignores_kwargs)

text \<open>When the arguments convert and the wrapped function returns, the result of the
  call is read off the returned values \<open>out\<close> alone. The error of the function is
  passed on when exactly one other value is returned, and lost when the number of
  other values is not one.\<close>

lemma StarFn_call_returns:
  assumes "length args = length (func_In gofn)" "FromTuple args = Inr vals"
    "convert_args conv (func_In gofn) vals = Inr rvs"
    "call gofn rvs s = (Inr out, s')"
  shows "StarFn_call conv call gofn args kwargs s =
    (if length out = 0 then (Inr (SNone, None), s')
     else
       (let last = out ! (length out - 1);
            err = (if fst last = errType \<and> snd last \<noteq> GNil
                   then Some (NativeError (snd last)) else None);
            out = (if fst last = errType then take (length out - 1) out else out)
        in
          if length out = 1 then
            (case ToValue (snd (out ! 0)) of
               Inl (Panic p) \<Rightarrow> (Inl p, s')
             | Inl (Error err2) \<Rightarrow> (Inr (SNone, Some err2), s')
             | Inr v \<Rightarrow> (Inr (v, err), s'))
          else
            (case MakeTuple (GSlice TInterface (map snd out)) of
               Inl p \<Rightarrow> (Inl p, s')
             | Inr (tup, err2) \<Rightarrow>
               if err \<noteq> None then (Inr (SNone, err2), s')
               else (Inr (STuple tup, err), s'))))"
  using assms by (simp add: StarFn_call_def)

lemma StarFn_call_error_lost:
  assumes "length args = length (func_In gofn)" "FromTuple args = Inr vals"
    "convert_args conv (func_In gofn) vals = Inr rvs"
    "call gofn rvs s = (Inr (res @ [(TError, e)]), s')"
    "e \<noteq> GNil" "length res \<noteq> 1"
    "MakeTuple (GSlice TInterface (map snd res)) = Inr (tup, err2)"
  shows "StarFn_call conv call gofn args kwargs s = (Inr (SNone, err2), s')"
  using assms(5-7)
  by (simp add: StarFn_call_returns [where call = call, OF assms(1-4)] errType_def)

lemma StarFn_call_one_result_with_error:
  assumes "length args = length (func_In gofn)" "FromTuple args = Inr vals"
    "convert_args conv (func_In gofn) vals = Inr rvs"
    "call gofn rvs s = (Inr [(t, x), (TError, e)], s')"
    "ToValue x = Inr v"
  shows "StarFn_call conv call gofn args kwargs s =
    (Inr (v, if e = GNil then None else Some (NativeError e)), s')"
  using assms(5)
  by (simp add: StarFn_call_returns [where call = call, OF assms(1-4)] errType_def)

lemma StarFn_call_no_error_slot:
  assumes "length args = length (func_In gofn)" "FromTuple args = Inr vals"
    "convert_args conv (func_In gofn) vals = Inr rvs"
    "call gofn rvs s = (Inr out, s')"
    "out \<noteq> []" "fst (last out) \<noteq> TError" "length out \<noteq> 1"
    "makeVals_loop (map snd out) = Inr tup"
  shows "StarFn_call conv call gofn args kwargs s = (Inr (STuple tup, None), s')"
  using assms(5-8)
  by (simp add: StarFn_call_returns [where call = call, OF assms(1-4)] errType_def MakeTuple_def makeVals.simps
      Kind_def last_conv_nth)

text \<open>
  Claim C1 on the code. A function \<^verbatim>\<open>func() (int, int, error)\<close> that returns 1, 2 and a
  non-nil error: the call returns None and no error. The same for \<^verbatim>\<open>func() error\<close>
  returning a non-nil error. With exactly one other result, \<^verbatim>\<open>func() (int, error)\<close>, the
  value and the error are both returned.
\<close>

theorem StarFn_call_drops_error:
  "StarFn_call conv
     (\<lambda>gofn rvs s.
        (Inr [(TInt, GInt 1), (TInt, GInt 2),
              (TError, GPtr (GStruct ''errors.errorString'' [(''s'', GString ''boom'')]))], s))
     (GFunc [] [TInt, TInt, TError] 0) [] kwargs s =
     (Inr (SNone, None), s) \<and>
   StarFn_call conv
     (\<lambda>gofn rvs s.
        (Inr [(TError, GPtr (GStruct ''errors.errorString'' [(''s'', GString ''boom'')]))], s))
     (GFunc [] [TError] 0) [] kwargs s =
     (Inr (SNone, None), s) \<and>
   StarFn_call conv
     (\<lambda>gofn rvs s.
        (Inr [(TInt, GInt 1),
              (TError, GPtr (GStruct ''errors.errorString'' [(''s'', GString ''boom'')]))], s))
     (GFunc [] [TInt, TError] 0) [] kwargs s =
     (Inr (SInt 1,
        Some (NativeError (GPtr (GStruct ''errors.errorString'' [(''s'', GString ''boom'')])))), s)"
  by (simp add: StarFn_call_def func_In_def errType_def MakeTuple_def makeVals.simps
      ToValue_signed Kind_def)

text \<open>
  Claim C2 on the code. A function \<^verbatim>\<open>func() error\<close> that returns nil has no result left
  once the error slot is removed, and the call returns the empty tuple, not None
  (a function \<^verbatim>\<open>func()\<close> does return None). A function \<^verbatim>\<open>func() (int, int, error)\<close>
  returns the tuple of 1 and 2 with a nil error, and None with a non-nil error.
\<close>

theorem StarFn_call_result_shapes:
  "StarFn_call conv (\<lambda>gofn rvs s. (Inr [(TError, GNil)], s))
     (GFunc [] [TError] 0) [] kwargs s =
     (Inr (STuple [], None), s) \<and>
   StarFn_call conv (\<lambda>gofn rvs s. (Inr [], s)) (GFunc [] [] 0) [] kwargs s =
     (Inr (SNone, None), s) \<and>
   StarFn_call conv (\<lambda>gofn rvs s. (Inr [(TInt, GInt 1), (TInt, GInt 2), (TError, GNil)], s))
     (GFunc [] [TInt, TInt, TError] 0) [] kwargs s =
     (Inr (STuple [SInt 1, SInt 2], None), s) \<and>
   StarFn_call conv
     (\<lambda>gofn rvs s.
        (Inr [(TInt, GInt 1), (TInt, GInt 2),
              (TError, GPtr (GStruct ''errors.errorString'' [(''s'', GString ''boom'')]))], s))
     (GFunc [] [TInt, TInt, TError] 0) [] kwargs s =
     (Inr (SNone, None), s)"
  by (simp add: StarFn_call_def func_In_def errType_def MakeTuple_def makeVals.simps
      ToValue_signed Kind_def)

end
